theory Spec2Isabelle
  imports Main "HOL-Library.Word" "HOL-Library.Char_ord" "HOL-Library.List_Lexorder"
    "HOL-Library.Multiset"
begin

unbundle bit_operations_syntax

section \<open>Go strings, bytes and runes\<close>

text \<open>
  A Go string is a sequence of bytes: \<^typ>\<open>string\<close>, a list of 8-bit characters.
  \<open>len\<close> is \<^const>\<open>length\<close>, concatenation is \<open>@\<close>, and the comparison \<open><\<close> of two Go
  strings is the byte-wise lexicographic order, which is the order of \<^typ>\<open>char list\<close>
  with characters ordered by their codes.

  The regular expressions of \<open>encode.go\<close> read a string rune by rune. The \<open>regexp\<close>
  package decodes as \<open>utf8.DecodeRune\<close> does: a byte that starts no well-formed UTF-8
  sequence is the rune \<open>U+FFFD\<close> of width 1.
\<close>

definition RuneError :: nat where
  "RuneError = 0xFFFD"

fun DecodeRune :: "string \<Rightarrow> nat \<times> nat" where
  "DecodeRune [] = (RuneError, 0)"
| "DecodeRune (c # cs) =
    (let s0 = (of_char c :: nat) in
     if s0 < 0x80 then (s0, 1)
     else if s0 < 0xC2 \<or> 0xF4 < s0 then (RuneError, 1)
     else
       let sz = (if s0 < 0xE0 then 2 else if s0 < 0xF0 then 3 else 4 :: nat);
           lo = (if s0 = 0xE0 then 0xA0 else if s0 = 0xF0 then 0x90 else 0x80 :: nat);
           hi = (if s0 = 0xED then 0x9F else if s0 = 0xF4 then 0x8F else 0xBF :: nat)
       in
       if length cs + 1 < sz then (RuneError, 1)
       else
         let s1 = (of_char (cs ! 0) :: nat) in
         if s1 < lo \<or> hi < s1 then (RuneError, 1)
         else if sz \<le> 2 then ((s0 mod 0x20) * 0x40 + s1 mod 0x40, 2)
         else
           let s2 = (of_char (cs ! 1) :: nat) in
           if s2 < 0x80 \<or> 0xBF < s2 then (RuneError, 1)
           else if sz \<le> 3 then
             ((s0 mod 0x10) * 0x1000 + (s1 mod 0x40) * 0x40 + s2 mod 0x40, 3)
           else
             let s3 = (of_char (cs ! 2) :: nat) in
             if s3 < 0x80 \<or> 0xBF < s3 then (RuneError, 1)
             else
               ((s0 mod 8) * 0x40000 + (s1 mod 0x40) * 0x1000 + (s2 mod 0x40) * 0x40
                  + s3 mod 0x40, 4))"

text \<open>The runes of a string in order, each with the bytes it was decoded from.\<close>

fun runes :: "string \<Rightarrow> (nat \<times> string) list" where
  "runes [] = []"
| "runes (c # cs) =
    (fst (DecodeRune (c # cs)), take (snd (DecodeRune (c # cs))) (c # cs))
      # runes (drop (snd (DecodeRune (c # cs)) - 1) cs)"

definition HasPrefix :: "string \<Rightarrow> string \<Rightarrow> bool" where
  "HasPrefix s p = (take (length p) s = p)"

fun Contains :: "string \<Rightarrow> string \<Rightarrow> bool" where
  "Contains [] sub = (sub = [])"
| "Contains (c # cs) sub = (HasPrefix (c # cs) sub \<or> Contains cs sub)"

definition dq :: string where
  "dq = [CHR 0x22]"

definition tq :: string where
  "tq = [CHR 0x27, CHR 0x27, CHR 0x27]"

definition bs :: char where
  "bs = CHR 0x5C"

definition LF :: char where
  "LF = CHR 0x0A"

definition CR :: char where
  "CR = CHR 0x0D"

section \<open>The regular expressions of \<open>init\<close>\<close>

text \<open>
  The character class of \<open>needsQuotes\<close>:
  \<^verbatim>\<open>[\x00-\x1f\x7f-\x9f\x{00ad}\x{0600}-\x{0604}\x{070f}\x{17b4}\x{17b5}\x{200c}-\x{200f}\x{2028}-\x{202f}\x{2060}-\x{206f}\x{feff}\x{fff0}-\x{ffff}]\<close>
\<close>

definition needsQuotes_class :: "nat \<Rightarrow> bool" where
  "needsQuotes_class r =
    (r \<le> 0x1f \<or> (0x7f \<le> r \<and> r \<le> 0x9f) \<or> r = 0xad \<or> (0x600 \<le> r \<and> r \<le> 0x604)
     \<or> r = 0x70f \<or> r = 0x17b4 \<or> r = 0x17b5 \<or> (0x200c \<le> r \<and> r \<le> 0x200f)
     \<or> (0x2028 \<le> r \<and> r \<le> 0x202f) \<or> (0x2060 \<le> r \<and> r \<le> 0x206f) \<or> r = 0xfeff
     \<or> (0xfff0 \<le> r \<and> r \<le> 0xffff))"

text \<open>\<open>needsEscape\<close>: the same class with the backslash and the double quote.\<close>

definition needsEscape_class :: "nat \<Rightarrow> bool" where
  "needsEscape_class r = (r = 0x5c \<or> r = 0x22 \<or> needsQuotes_class r)"

text \<open>The class of \<open>needsEscapeML\<close>: \<open>needsQuotes\<close> without \<open>\n\<close> and \<open>\r\<close>.\<close>

definition needsEscapeML_class :: "nat \<Rightarrow> bool" where
  "needsEscapeML_class r =
    (r \<le> 0x09 \<or> r = 0x0b \<or> r = 0x0c \<or> (0x0e \<le> r \<and> r \<le> 0x1f) \<or> (0x7f \<le> r \<and> r \<le> 0x9f)
     \<or> r = 0xad \<or> (0x600 \<le> r \<and> r \<le> 0x604)
     \<or> r = 0x70f \<or> r = 0x17b4 \<or> r = 0x17b5 \<or> (0x200c \<le> r \<and> r \<le> 0x200f)
     \<or> (0x2028 \<le> r \<and> r \<le> 0x202f) \<or> (0x2060 \<le> r \<and> r \<le> 0x206f) \<or> r = 0xfeff
     \<or> (0xfff0 \<le> r \<and> r \<le> 0xffff))"

text \<open>\<open>MatchString\<close> of a pattern that is one character class: some rune is in the class.\<close>

definition MatchClass :: "(nat \<Rightarrow> bool) \<Rightarrow> string \<Rightarrow> bool" where
  "MatchClass cls s = list_ex (\<lambda>m. cls (fst m)) (runes s)"

definition needsEscape :: "string \<Rightarrow> bool" where
  "needsEscape s = MatchClass needsEscape_class s"

definition needsQuotes :: "string \<Rightarrow> bool" where
  "needsQuotes s = MatchClass needsQuotes_class s"

text \<open>\<open>'''|[...]\<close>. The quote is ASCII, and an ASCII byte is always a rune of its own,
  so three quote runes in a row are three quote bytes in a row.\<close>

definition needsEscapeML :: "string \<Rightarrow> bool" where
  "needsEscapeML s = (Contains s tq \<or> MatchClass needsEscapeML_class s)"

text \<open>The class \<open>\s\<close> of Go's regexp syntax is \<open>[\t\n\f\r ]\<close>.\<close>

definition isSpace :: "char \<Rightarrow> bool" where
  "isSpace c = (c = CHR 0x09 \<or> c = CHR 0x0A \<or> c = CHR 0x0C \<or> c = CHR 0x0D \<or> c = CHR 0x20)"

text \<open>\<^verbatim>\<open>^\s|^"|^'''|^#|^/\*|^//|^\{|^\[|\s$\<close>, every character of it ASCII.\<close>

definition needsQuotes2 :: "string \<Rightarrow> bool" where
  "needsQuotes2 s =
    (case s of
       [] \<Rightarrow> False
     | c # cs \<Rightarrow>
         isSpace c \<or> c = CHR 0x22 \<or> HasPrefix s tq \<or> c = CHR ''#'' \<or> HasPrefix s ''/*''
         \<or> HasPrefix s ''//'' \<or> c = CHR ''{'' \<or> c = CHR ''['' \<or> isSpace (last s))"

text \<open>
  \<^verbatim>\<open>^(true|false|null)\s*((,|\]|\}|#|//|/\*).*)?$\<close>. After the keyword and all the
  white space that follows it, the text ends, or one of the six tokens follows and the
  rest has no newline (\<open>.\<close> does not match \<open>\n\<close>, and \<open>$\<close> is the end of the text).
\<close>

definition keywordTail :: "string \<Rightarrow> bool" where
  "keywordTail t =
    (t = [] \<or> (list_ex (HasPrefix t) ['','', '']'', ''}'', ''#'', ''//'', ''/*''] \<and> LF \<notin> set t))"

definition startsWithKeyword :: "string \<Rightarrow> bool" where
  "startsWithKeyword s =
    list_ex (\<lambda>kw. HasPrefix s kw \<and> keywordTail (dropWhile isSpace (drop (length kw) s)))
      [''true'', ''false'', ''null'']"

text \<open>\<^verbatim>\<open>[,\{\[\}\]\s:#"]|//|/\*|'''\<close>\<close>

definition needsEscapeName_class :: "char \<Rightarrow> bool" where
  "needsEscapeName_class c =
    (c = CHR '','' \<or> c = CHR ''{'' \<or> c = CHR ''['' \<or> c = CHR ''}'' \<or> c = CHR '']'' \<or> isSpace c
     \<or> c = CHR '':'' \<or> c = CHR ''#'' \<or> c = CHR 0x22)"

definition needsEscapeName :: "string \<Rightarrow> bool" where
  "needsEscapeName s =
    (list_ex needsEscapeName_class s \<or> Contains s ''//'' \<or> Contains s ''/*'' \<or> Contains s tq)"


section \<open>Options, encoder state and the host library\<close>

record EncoderOptions =
  Eol :: string
  BracesSameLine :: bool
  EmitRootBraces :: bool
  QuoteAlways :: bool
  IndentBy :: string
  AllowMinusZero :: bool
  UnknownAsNull :: bool

definition DefaultOptions :: EncoderOptions where
  "DefaultOptions =
    \<lparr>Eol = [LF], BracesSameLine = False, EmitRootBraces = True, QuoteAlways = False,
     IndentBy = ''  '', AllowMinusZero = False, UnknownAsNull = False\<rparr>"

text \<open>
  \<open>hjsonEncoder\<close> embeds the output buffer and the options, and adds the indentation
  depth. Go's \<open>int\<close> is modelled by \<^typ>\<open>int\<close>: the depth is the nesting depth of the
  value, far from the 64-bit range.
\<close>

record hjsonEncoder = EncoderOptions +
  Buffer :: string
  indent :: int

definition WriteString :: "hjsonEncoder \<Rightarrow> string \<Rightarrow> hjsonEncoder" where
  "WriteString e s = e\<lparr>Buffer := Buffer e @ s\<rparr>"

text \<open>
  What \<open>encode.go\<close> calls and does not define:
  \<^item> \<open>startsWithNumber\<close>, a function of the package that lies in another file;
  \<^item> \<open>strconv.FormatFloat (number, fmt, -1, 64)\<close>, on the IEEE 754 bits of the number;
  \<^item> \<open>sort.Sort\<close>, given the \<open>Less\<close> of \<open>SortAlpha\<close>. It moves the keys only through
    \<open>Swap\<close>, is not stable, and its algorithm is not part of its contract;
  \<^item> the byte \<open>fmt\<close> pads with under \<open>%04x\<close> when the operand is an empty byte
    slice: \<open>0\<close> where the flag \<open>0\<close> applies to byte slices, a space where \<open>fmt\<close>
    ignores the flag for them.
\<close>

record host =
  startsWithNumber :: "string \<Rightarrow> bool"
  FormatFloat :: "64 word \<Rightarrow> char \<Rightarrow> string"
  Sort :: "(string \<Rightarrow> string \<Rightarrow> bool) \<Rightarrow> string list \<Rightarrow> string list"
  padByte :: char

section \<open>The escaper\<close>

definition meta :: "char \<Rightarrow> string option" where
  "meta b =
    (if b = CHR 0x08 then Some [bs, CHR ''b'']
     else if b = CHR 0x09 then Some [bs, CHR ''t'']
     else if b = CHR 0x0A then Some [bs, CHR ''n'']
     else if b = CHR 0x0C then Some [bs, CHR ''f'']
     else if b = CHR 0x0D then Some [bs, CHR ''r'']
     else if b = CHR 0x22 then Some [bs, CHR 0x22]
     else if b = CHR 0x5C then Some [bs, bs]
     else None)"

text \<open>
  \<open>fmt.Sprintf ("\\u%04x", c)\<close> where \<open>c\<close> is the \<open>nil\<close> that the lookup in \<open>meta\<close>
  returned: the hexadecimal text of an empty byte slice is empty, and the width 4 pads it.
\<close>

definition Sprintf_u04x_nil :: "host \<Rightarrow> string" where
  "Sprintf_u04x_nil L = [bs, CHR ''u''] @ replicate 4 (padByte L)"

text \<open>
  \<open>needsEscape.ReplaceAllFunc\<close>: every rune of the class is a match \<open>a\<close>, replaced by
  what the function returns for it; \<open>a[0]\<close> is the first byte of the match. The other
  bytes are copied.
\<close>

definition quoteReplace :: "host \<Rightarrow> string \<Rightarrow> string" where
  "quoteReplace L text =
    concat (map (\<lambda>m.
      if needsEscape_class (fst m) then
        (case meta (hd (snd m)) of Some c \<Rightarrow> c | None \<Rightarrow> Sprintf_u04x_nil L)
      else snd m) (runes text))"

section \<open>Strings and names\<close>

definition writeIndent :: "hjsonEncoder \<Rightarrow> int \<Rightarrow> hjsonEncoder" where
  "writeIndent e n = WriteString (WriteString e (Eol e)) (concat (replicate (nat n) (IndentBy e)))"

text \<open>\<open>strings.Split (s, "\n")\<close> and \<open>strings.Replace (s, "\r", "", -1)\<close>.\<close>

fun Split :: "string \<Rightarrow> char \<Rightarrow> string list" where
  "Split [] sep = [[]]"
| "Split (c # cs) sep =
    (if c = sep then [] # Split cs sep
     else (case Split cs sep of x # xs \<Rightarrow> (c # x) # xs | [] \<Rightarrow> [[c]]))"

definition Remove :: "string \<Rightarrow> char \<Rightarrow> string" where
  "Remove s c = filter (\<lambda>x. x \<noteq> c) s"

definition mlString :: "hjsonEncoder \<Rightarrow> string \<Rightarrow> string \<Rightarrow> hjsonEncoder" where
  "mlString e value separator =
    (let a = Split (Remove value CR) LF in
     WriteString
       (if length a = 1 then WriteString (WriteString e (separator @ tq)) (a ! 0)
        else
          writeIndent
            (foldl (\<lambda>e' v. WriteString (writeIndent e' (if length v = 0 then 0 else indent e' + 1)) v)
               (WriteString (writeIndent e (indent e + 1)) tq) a)
            (indent e + 1))
       tq)"

definition quote :: "host \<Rightarrow> hjsonEncoder \<Rightarrow> string \<Rightarrow> string \<Rightarrow> bool \<Rightarrow> hjsonEncoder" where
  "quote L e value separator isRootObject =
    (if length value = 0 then WriteString e (separator @ dq @ dq)
     else if QuoteAlways e \<or> needsQuotes value \<or> needsQuotes2 value \<or> startsWithNumber L value
             \<or> startsWithKeyword value then
       (if \<not> needsEscape value then WriteString e (separator @ dq @ value @ dq)
        else if \<not> needsEscapeML value \<and> \<not> isRootObject then mlString e value separator
        else WriteString e (separator @ dq @ quoteReplace L value @ dq))
     else WriteString e (separator @ value))"

definition quoteName :: "host \<Rightarrow> string \<Rightarrow> string" where
  "quoteName L name =
    (if length name = 0 then dq @ dq
     else if needsEscapeName name then
       dq @ (if needsEscape name then quoteReplace L name else name) @ dq
     else name)"

section \<open>Values\<close>

text \<open>
  A \<open>reflect.Value\<close> as \<open>str\<close> sees it, by kind:
  \<^item> \<open>InvalidV\<close>: the zero Value (\<open>reflect.ValueOf (nil)\<close>, \<open>MapIndex\<close> of an absent key);
  \<^item> \<open>InterfaceV\<close>, \<open>PtrV\<close>: \<open>None\<close> when \<open>IsNil\<close>, else what \<open>Elem\<close> returns;
  \<^item> \<open>IntV\<close>: the kinds \<open>Int\<close> to \<open>Int64\<close>, holding the \<open>int64\<close> that \<open>Int ()\<close> returns;
  \<^item> \<open>UintV\<close>: the kinds \<open>Uint\<close> to \<open>Uint64\<close> and \<open>Uintptr\<close>;
  \<^item> \<open>FloatV\<close>: \<open>Float32\<close> and \<open>Float64\<close>, holding the bits of the \<open>float64\<close> that
    \<open>Float ()\<close> returns;
  \<^item> \<open>SliceV\<close>: \<open>Slice\<close> and \<open>Array\<close>, the elements by index;
  \<^item> \<open>MapV\<close>: a map with keys of kind \<open>String\<close>, as the list of its entries in the
    order in which \<open>MapKeys\<close> returns the keys;
  \<^item> \<open>OtherV\<close>: every other kind (\<open>Struct\<close>, \<open>Func\<close>, \<open>Chan\<close>, \<open>Complex64\<close>, ...), with
    the name of its type.
\<close>

datatype rvalue =
    InvalidV
  | InterfaceV "rvalue option"
  | PtrV "rvalue option"
  | StringV string
  | IntV "64 word"
  | UintV "64 word"
  | FloatV "64 word"
  | BoolV bool
  | SliceV "rvalue list"
  | MapV "(string \<times> rvalue) list"
  | OtherV string

text \<open>
  \<open>str\<close> ends in one of three ways: it returns \<open>nil\<close>, it returns the error
  \<open>"Unsupported type " + value.Type ().String ()\<close> (here: with the value whose type the
  message names), or a call into \<open>reflect\<close> panics.
\<close>

datatype error =
    UnsupportedType rvalue
  | Panic string

fun isInterfaceOrPtr :: "rvalue \<Rightarrow> bool" where
  "isInterfaceOrPtr (InterfaceV x) = True"
| "isInterfaceOrPtr (PtrV x) = True"
| "isInterfaceOrPtr v = False"

fun IsNil :: "rvalue \<Rightarrow> bool" where
  "IsNil (InterfaceV x) = (x = None)"
| "IsNil (PtrV x) = (x = None)"
| "IsNil v = False"

fun Elem :: "rvalue \<Rightarrow> rvalue" where
  "Elem (InterfaceV (Some v)) = v"
| "Elem (PtrV (Some v)) = v"
| "Elem v = InvalidV"

definition MapKeys :: "(string \<times> rvalue) list \<Rightarrow> string list" where
  "MapKeys kvs = map fst kvs"

definition MapIndex :: "(string \<times> rvalue) list \<Rightarrow> string \<Rightarrow> rvalue" where
  "MapIndex kvs k = (case map_of kvs k of Some v \<Rightarrow> v | None \<Rightarrow> InvalidV)"

text \<open>\<open>SortAlpha.Less\<close>: \<open>s[i].String () < s[j].String ()\<close>.\<close>

definition Less :: "string \<Rightarrow> string \<Rightarrow> bool" where
  "Less a b = (a < b)"

section \<open>Numbers\<close>

fun digits :: "nat \<Rightarrow> string" where
  "digits n =
    (if n < 10 then [''0123456789'' ! n] else digits (n div 10) @ [''0123456789'' ! (n mod 10)])"

declare digits.simps [simp del]

text \<open>\<open>strconv.FormatInt (i, 10)\<close>\<close>

definition FormatInt :: "int \<Rightarrow> string" where
  "FormatInt i = (if i < 0 then CHR ''-'' # digits (nat (- i)) else digits (nat i))"

text \<open>\<open>math.IsInf (number, 0)\<close>, \<open>math.IsNaN (number)\<close> and the comparison
  \<open>number == -0\<close> (the constant \<open>-0\<close> is the integer 0, and both zeros equal it), on the
  bits of a \<open>float64\<close>.\<close>

definition IsInf :: "64 word \<Rightarrow> bool" where
  "IsInf w = (w AND 0x7FFFFFFFFFFFFFFF = 0x7FF0000000000000)"

definition IsNaN :: "64 word \<Rightarrow> bool" where
  "IsNaN w = (0x7FF0000000000000 < (w AND 0x7FFFFFFFFFFFFFFF))"

definition eqZero :: "64 word \<Rightarrow> bool" where
  "eqZero w = (w AND 0x7FFFFFFFFFFFFFFF = 0)"

text \<open>\<open>strings.ToLower\<close> on the ASCII text that \<open>FormatFloat\<close> returns.\<close>

definition ToLower :: "string \<Rightarrow> string" where
  "ToLower s =
    map (\<lambda>c. if CHR ''A'' \<le> c \<and> c \<le> CHR ''Z'' then char_of (of_char c + (32 :: nat)) else c) s"

section \<open>An instance of the host\<close>

text \<open>
  The theorems below hold for every host. To run the model on concrete values, the
  host is instantiated: \<open>sort.Sort\<close> by an insertion sort, the padding byte by \<open>0\<close>,
  \<open>FormatFloat\<close> on the two zeros only (no other float is formatted below).
\<close>

definition isDigit :: "char \<Rightarrow> bool" where
  "isDigit c = (CHR ''0'' \<le> c \<and> c \<le> CHR ''9'')"

definition skipFraction :: "string \<Rightarrow> string option" where
  "skipFraction s =
    (case s of
       [] \<Rightarrow> Some s
     | c # cs \<Rightarrow>
         if c = CHR ''.'' then
           (if takeWhile isDigit cs = [] then None else Some (dropWhile isDigit cs))
         else Some s)"

definition skipSign :: "string \<Rightarrow> string" where
  "skipSign s = (if HasPrefix s ''-'' \<or> HasPrefix s ''+'' then drop 1 s else s)"

definition skipExponent :: "string \<Rightarrow> string option" where
  "skipExponent s =
    (case s of
       [] \<Rightarrow> Some s
     | c # cs \<Rightarrow>
         if c = CHR ''e'' \<or> c = CHR ''E'' then
           (if takeWhile isDigit (skipSign cs) = [] then None
            else Some (dropWhile isDigit (skipSign cs)))
         else Some s)"

text \<open>
  Modelled from the spec: \<open>startsWithNumber\<close> is not in \<open>encode.go\<close>. Section 4.1 of the
  specification describes it: the text, read from its start, parses as a valid
  JSON-style number (a sign, digits with no leading zero, a fraction and an exponent),
  taken here as the whole text. Only the instance of the host uses this definition.
\<close>

definition startsWithNumber_spec :: "string \<Rightarrow> bool" where
  "startsWithNumber_spec s =
    (let s1 = (if HasPrefix s ''-'' then drop 1 s else s) in
     takeWhile isDigit s1 \<noteq> [] \<and>
     (length (takeWhile isDigit s1) = 1 \<or> \<not> HasPrefix s1 ''0'') \<and>
     (case skipFraction (dropWhile isDigit s1) of
        None \<Rightarrow> False
      | Some r \<Rightarrow> (case skipExponent r of None \<Rightarrow> False | Some r' \<Rightarrow> r' = [])))"

fun insertBy :: "(string \<Rightarrow> string \<Rightarrow> bool) \<Rightarrow> string \<Rightarrow> string list \<Rightarrow> string list" where
  "insertBy lt x [] = [x]"
| "insertBy lt x (y # ys) = (if lt y x then y # insertBy lt x ys else x # y # ys)"

fun insertionSort :: "(string \<Rightarrow> string \<Rightarrow> bool) \<Rightarrow> string list \<Rightarrow> string list" where
  "insertionSort lt [] = []"
| "insertionSort lt (x # xs) = insertBy lt x (insertionSort lt xs)"

definition exampleFormatFloat :: "64 word \<Rightarrow> char \<Rightarrow> string" where
  "exampleFormatFloat w fmt =
    (if w = 0 then (if fmt = CHR ''f'' then ''0'' else ''0E+00'')
     else if w = 0x8000000000000000 then (if fmt = CHR ''f'' then ''-0'' else ''-0E+00'')
     else [])"

definition exampleHost :: host where
  "exampleHost =
    \<lparr>startsWithNumber = startsWithNumber_spec, FormatFloat = exampleFormatFloat,
     Sort = insertionSort, padByte = CHR ''0''\<rparr>"

text \<open>The encoder that \<open>MarshalWithOptions\<close> starts from under \<open>DefaultOptions\<close>.\<close>

definition exampleEncoder :: hjsonEncoder where
  "exampleEncoder =
    \<lparr>Eol = [LF], BracesSameLine = False, EmitRootBraces = True, QuoteAlways = False,
     IndentBy = ''  '', AllowMinusZero = False, UnknownAsNull = False, Buffer = [], indent = 0\<rparr>"

text \<open>
  The set of key texts that section 4.1 of the specification calls Name-escape-worthy,
  in the specification's words: any of \<^verbatim>\<open>, { [ } ] : #\<close> or white space, or one of
  the sequences \<^verbatim>\<open>//\<close>, \<^verbatim>\<open>/*\<close> and the triple quote. It is compared with
  \<open>needsEscapeName\<close> below.
\<close>

definition nameEscapeWorthy_spec :: "string \<Rightarrow> bool" where
  "nameEscapeWorthy_spec k =
    (list_ex (\<lambda>c. c = CHR '','' \<or> c = CHR ''{'' \<or> c = CHR ''['' \<or> c = CHR ''}'' \<or> c = CHR '']''
                \<or> c = CHR '':'' \<or> c = CHR ''#'' \<or> isSpace c) k
     \<or> Contains k ''//'' \<or> Contains k ''/*'' \<or> Contains k tq)"

section \<open>The structural emitter\<close>

lemma size_MapIndex: "size (MapIndex kvs k) < size (MapV kvs)"
  by (induction kvs) (auto simp: MapIndex_def)

lemma size_Elem: "size (Elem v) \<le> size v"
  by (induction v rule: Elem.induct) auto

lemma size_value_Slice:
  "(if isInterfaceOrPtr v then Elem v else v) = SliceV xs \<Longrightarrow>
    Suc (2 * size_list size xs) < 2 * size v"
  using size_Elem [of v] by (auto split: if_splits)

lemma size_value_Map:
  "(if isInterfaceOrPtr v then Elem v else v) = MapV kvs \<Longrightarrow>
    Suc (2 * size_list (size_prod (\<lambda>x. 0) size) kvs) < 2 * size v"
  using size_Elem [of v] by (auto split: if_splits)

lemma size_MapIndex2:
  "2 * size (MapIndex kvs k) < Suc (2 * size_list (size_prod (\<lambda>x. 0) size) kvs)"
  using size_MapIndex [of kvs k] by simp

function str :: "host \<Rightarrow> hjsonEncoder \<Rightarrow> rvalue \<Rightarrow> bool \<Rightarrow> string \<Rightarrow> bool \<Rightarrow> error + hjsonEncoder"
  and strElems :: "host \<Rightarrow> hjsonEncoder \<Rightarrow> rvalue list \<Rightarrow> error + hjsonEncoder"
  and strMembers ::
    "host \<Rightarrow> hjsonEncoder \<Rightarrow> (string \<times> rvalue) list \<Rightarrow> string list \<Rightarrow> error + hjsonEncoder"
where
  "str L e value noIndent separator isRootObject =
    (if isInterfaceOrPtr value \<and> IsNil value then
       Inr (WriteString (WriteString e separator) ''null'')
     else
       (case (if isInterfaceOrPtr value then Elem value else value) of
          StringV s \<Rightarrow> Inr (quote L e s separator isRootObject)
        | IntV i \<Rightarrow> Inr (WriteString (WriteString e separator) (FormatInt (sint i)))
        | UintV u \<Rightarrow> Inl (Panic ''reflect: call of reflect.Value.Int on uint Value'')
        | FloatV number \<Rightarrow>
            Inr (let e1 = WriteString e separator in
              if IsInf number \<or> IsNaN number then WriteString e1 ''null''
              else if \<not> AllowMinusZero e1 \<and> eqZero number then WriteString e1 ''0''
              else
                let val = FormatFloat L number (CHR ''f'');
                    exp = FormatFloat L number (CHR ''E'')
                in WriteString e1 (if length exp < length val then ToLower exp else val))
        | BoolV b \<Rightarrow>
            Inr (WriteString (WriteString e separator) (if b then ''true'' else ''false''))
        | SliceV xs \<Rightarrow>
            (if length xs = 0 then Inr (WriteString (WriteString e separator) ''[]'')
             else
               let indent1 = indent e;
                   e1 = e\<lparr>indent := indent e + 1\<rparr>;
                   e2 = (if \<not> noIndent \<and> \<not> BracesSameLine e1 then writeIndent e1 indent1
                         else WriteString e1 separator);
                   e3 = WriteString e2 ''[''
               in
               (case strElems L e3 xs of
                  Inl err \<Rightarrow> Inl err
                | Inr e4 \<Rightarrow> Inr ((WriteString (writeIndent e4 indent1) '']'')\<lparr>indent := indent1\<rparr>)))
        | MapV kvs \<Rightarrow>
            (if length kvs = 0 then Inr (WriteString (WriteString e separator) ''{}'')
             else
               let showBraces = (\<not> isRootObject \<or> EmitRootBraces e);
                   indent1 = indent e;
                   e1 = e\<lparr>indent := indent e + 1\<rparr>;
                   e3 =
                     (if showBraces then
                        WriteString
                          (if \<not> noIndent \<and> \<not> BracesSameLine e1 then writeIndent e1 indent1
                           else WriteString e1 separator) ''{''
                      else e1);
                   keys = Sort L Less (MapKeys kvs)
               in
               (case strMembers L e3 kvs keys of
                  Inl err \<Rightarrow> Inl err
                | Inr e4 \<Rightarrow>
                    Inr ((if showBraces then WriteString (writeIndent e4 indent1) ''}'' else e4)
                           \<lparr>indent := indent1\<rparr>)))
        | InvalidV \<Rightarrow>
            (if UnknownAsNull e then Inr (WriteString e ''null'')
             else Inl (Panic ''reflect: call of reflect.Value.Type on zero Value''))
        | v \<Rightarrow>
            (if UnknownAsNull e then Inr (WriteString e ''null'') else Inl (UnsupportedType v))))"
| "strElems L e [] = Inr e"
| "strElems L e (x # xs) =
    (case str L (writeIndent e (indent e)) x True [] False of
       Inl err \<Rightarrow> Inl err
     | Inr e' \<Rightarrow> strElems L e' xs)"
| "strMembers L e kvs [] = Inr e"
| "strMembers L e kvs (k # ks) =
    (case str L (WriteString (WriteString (writeIndent e (indent e)) (quoteName L k)) '':'')
            (MapIndex kvs k) False '' '' False of
       Inl err \<Rightarrow> Inl err
     | Inr e' \<Rightarrow> strMembers L e' kvs ks)"
  by pat_completeness auto

termination
proof (relation "inv_image (less_than <*lex*> less_than)
     (\<lambda>x. case x of
         Inl (L, e, v, ni, sep, root) \<Rightarrow> (2 * size v, 0)
       | Inr (Inl (L, e, xs)) \<Rightarrow> (2 * size (SliceV xs) - 1, 0)
       | Inr (Inr (L, e, kvs, ks)) \<Rightarrow> (2 * size (MapV kvs) - 1, length ks))", goal_cases)
  case 1
  show ?case by (intro wf_inv_image wf_lex_prod wf_less_than)
next
  case 2
  then show ?case by (simp add: size_value_Slice)
next
  case 3
  then show ?case by (simp add: size_value_Map)
next
  case 4
  show ?case by simp
next
  case 5
  show ?case by simp
next
  case 6
  show ?case by (simp add: size_MapIndex2)
next
  case 7
  show ?case by simp
qed

declare str.simps [simp del]

text \<open>
  \<open>MarshalWithOptions\<close>, on the \<open>reflect.Value\<close> of its argument. The encoder starts as
  the zero value of its type, and five fields of the options are assigned to it.
\<close>

definition MarshalWithOptions :: "host \<Rightarrow> rvalue \<Rightarrow> EncoderOptions \<Rightarrow> error + string" where
  "MarshalWithOptions L v options =
    (let e = \<lparr>Eol = Eol options, BracesSameLine = BracesSameLine options,
               EmitRootBraces = EmitRootBraces options, QuoteAlways = QuoteAlways options,
               IndentBy = IndentBy options, AllowMinusZero = False, UnknownAsNull = False,
               Buffer = [], indent = 0\<rparr>
     in (case str L e v True [] True of Inl err \<Rightarrow> Inl err | Inr e' \<Rightarrow> Inr (Buffer e')))"

definition Marshal :: "host \<Rightarrow> rvalue \<Rightarrow> error + string" where
  "Marshal L v = MarshalWithOptions L v DefaultOptions"

section \<open>The text that \<open>str\<close> writes\<close>




definition frame :: "hjsonEncoder \<Rightarrow> string \<Rightarrow> error + hjsonEncoder \<Rightarrow> error + hjsonEncoder" where
  "frame e b r = (case r of Inl err \<Rightarrow> Inl err | Inr e0 \<Rightarrow> Inr (e\<lparr>Buffer := b @ Buffer e0\<rparr>))"


section \<open>Facts about runes and the escaper\<close>

lemma DecodeRune_width: "1 \<le> snd (DecodeRune (c # cs))"
  by (simp add: Let_def)

text \<open>Every match has a first byte, and the matches with the bytes between them make up
  the string.\<close>

lemma runes_chunk_nonempty: "m \<in> set (runes s) \<Longrightarrow> snd m \<noteq> []"
proof (induction s rule: runes.induct)
  case 1
  then show ?case by simp
next
  case (2 c cs)
  have "take (snd (DecodeRune (c # cs))) (c # cs) \<noteq> []"
    using DecodeRune_width [of c cs] by (cases "snd (DecodeRune (c # cs))") simp_all
  with 2 show ?case by auto
qed

lemma concat_chunks: "concat (map snd (runes s)) = s"
proof (induction s rule: runes.induct)
  case 1
  then show ?case by simp
next
  case (2 c cs)
  obtain n where n: "snd (DecodeRune (c # cs)) = Suc n"
    using DecodeRune_width [of c cs] by (cases "snd (DecodeRune (c # cs))") simp_all
  with 2 show ?case by simp
qed

text \<open>A string with no rune of the class of \<open>needsEscape\<close> passes through the escaper
  unchanged.\<close>

lemma quoteReplace_unchanged: "\<not> needsEscape s \<Longrightarrow> quoteReplace L s = s"
proof -
  assume "\<not> needsEscape s"
  then have "\<forall>m \<in> set (runes s). \<not> needsEscape_class (fst m)"
    by (simp add: needsEscape_def MatchClass_def list_ex_iff)
  then have "map (\<lambda>m. if needsEscape_class (fst m) then
        (case meta (hd (snd m)) of Some c \<Rightarrow> c | None \<Rightarrow> Sprintf_u04x_nil L)
      else snd m) (runes s) = map snd (runes s)"
    by (intro map_cong) simp_all
  then show ?thesis
    unfolding quoteReplace_def by (simp only: concat_chunks)
qed

section \<open>Facts about the state\<close>

lemma indent_WriteString [simp]: "indent (WriteString e s) = indent e"
  by (simp add: WriteString_def)

lemma indent_writeIndent [simp]: "indent (writeIndent e n) = indent e"
  by (simp add: writeIndent_def)

lemma Buffer_WriteString [simp]: "Buffer (WriteString e s) = Buffer e @ s"
  by (simp add: WriteString_def)

section \<open>Nil pointers and nil interfaces\<close>




lemma indent_foldl:
  "(\<And>e v. indent (f e v) = indent e) \<Longrightarrow> indent (foldl f e0 a) = indent e0"
  by (induction a arbitrary: e0) simp_all

lemma indent_mlString [simp]: "indent (mlString e value separator) = indent e"
  by (simp add: mlString_def Let_def indent_foldl)

lemma indent_quote [simp]: "indent (quote L e value separator isRootObject) = indent e"
  by (simp add: quote_def)

section \<open>Indentation depth\<close>

text \<open>
  C9. Whenever \<open>str\<close> returns without an error, the indentation depth of the encoder
  is what it was when \<open>str\<close> was called. This holds for every value, so for every
  sequence and every mapping, at the root and at every nested call.
\<close>

theorem str_indent_restored:
  "str L e v noIndent separator isRootObject = Inr e' \<Longrightarrow> indent e' = indent e"
  by (subst (asm) str.simps) (auto simp: Let_def split: if_splits rvalue.splits sum.splits)

section \<open>The quoting decision\<close>

text \<open>
  C1, amended. A string that is not empty, has no rune of the class of \<open>needsQuotes\<close>,
  does not match \<open>needsQuotes2\<close> (white space at either end, or a leading double quote,
  triple quote, \<open>#\<close>, \<open>/*\<close>, \<open>//\<close>, \<open>{\<close>, \<open>[\<close>), does not start with a number and does
  not collide with a keyword is written as it is after the separator when
  \<open>QuoteAlways\<close> is false; encoding it as the root value yields the string itself.
\<close>

theorem quote_bare:
  assumes "value \<noteq> []" and "\<not> needsQuotes value" and "\<not> needsQuotes2 value"
    and "\<not> startsWithNumber L value" and "\<not> startsWithKeyword value"
    and "\<not> QuoteAlways e" and "\<not> QuoteAlways options"
  shows "quote L e value separator isRootObject = e\<lparr>Buffer := Buffer e @ separator @ value\<rparr>
    \<and> MarshalWithOptions L (StringV value) options = Inr value"
  using assms by (simp add: quote_def MarshalWithOptions_def str.simps WriteString_def)

text \<open>
  C2, amended. When the string contains the triple quote or is the root value, \<open>quote\<close>
  writes the separator and then: two double quotes for the empty string; for a string
  that must be quoted, the string between double quotes, escaped when it has a rune of
  the class of \<open>needsEscape\<close>; any other string as it is. The multiline form is not
  among them.
\<close>

theorem quote_never_multiline:
  assumes "Contains value tq \<or> isRootObject"
  shows "quote L e value separator isRootObject =
    WriteString e (separator @
      (if value = [] then dq @ dq
       else if QuoteAlways e \<or> needsQuotes value \<or> needsQuotes2 value \<or> startsWithNumber L value
               \<or> startsWithKeyword value
         then dq @ (if needsEscape value then quoteReplace L value else value) @ dq
       else value))"
  using assms by (auto simp: quote_def needsEscapeML_def)

section \<open>Mapping keys\<close>

lemma needsEscapeName_spec:
  "needsEscapeName k \<longleftrightarrow> nameEscapeWorthy_spec k \<or> CHR 0x22 \<in> set k"
  by (auto simp: needsEscapeName_def nameEscapeWorthy_spec_def needsEscapeName_class_def
      list_ex_iff)

text \<open>
  C8, amended. The empty key is written as two double quotes. Any other key is put
  between double quotes, escaped first when it matches \<open>needsEscape\<close>, exactly when it
  is in the specification's Name-escape-worthy set or contains a double quote;
  otherwise it is written as it is.
\<close>

theorem quoteName_amended:
  "quoteName L k =
    (if k = [] then dq @ dq
     else if nameEscapeWorthy_spec k \<or> CHR 0x22 \<in> set k then
       dq @ (if needsEscape k then quoteReplace L k else k) @ dq
     else k)"
  by (simp add: quoteName_def needsEscapeName_spec)



section \<open>What is written does not depend on what was written before\<close>







lemma frame_Inl [simp]: "frame e b (Inl err) = Inl err"
  by (simp add: frame_def)

lemma frame_Inr [simp]: "frame e b (Inr e0) = Inr (e\<lparr>Buffer := b @ Buffer e0\<rparr>)"
  by (simp add: frame_def)

















section \<open>Mapping entries in ascending order of their keys\<close>








section \<open>Evaluation on concrete values\<close>

lemmas class_defs = needsQuotes_class_def needsEscape_class_def needsEscapeML_class_def
  needsEscapeName_class_def isSpace_def isDigit_def

lemmas match_defs = needsQuotes_def needsEscape_def needsEscapeML_def MatchClass_def
  needsQuotes2_def startsWithKeyword_def keywordTail_def needsEscapeName_def HasPrefix_def
  nameEscapeWorthy_spec_def

lemmas char_defs = dq_def tq_def bs_def LF_def CR_def

lemmas host_defs = exampleHost_def startsWithNumber_spec_def skipFraction_def skipExponent_def
  skipSign_def exampleFormatFloat_def Less_def

lemmas enc_defs = exampleEncoder_def DefaultOptions_def WriteString_def writeIndent_def
  quote_def quoteName_def quoteReplace_def meta_def Sprintf_u04x_nil_def MarshalWithOptions_def
  MapKeys_def MapIndex_def FormatInt_def

lemmas eval_defs = class_defs match_defs char_defs host_defs enc_defs

lemma replicate_numeral_unfold:
  "replicate (numeral k) x = x # replicate (pred_numeral k) x"
  by (simp add: numeral_eq_Suc)

lemma negative_zero_tests:
  "\<not> IsInf 0x8000000000000000 \<and> \<not> IsNaN 0x8000000000000000 \<and> eqZero 0x8000000000000000"
  by (simp add: IsInf_def IsNaN_def eqZero_def)

text \<open>With \<open>AllowMinusZero\<close> set in the encoder, \<open>str\<close> formats negative zero with
  \<open>FormatFloat\<close>, which gives \<open>-0\<close>.\<close>

lemma str_negative_zero_allowed:
  "AllowMinusZero e \<Longrightarrow>
    str L e (FloatV 0x8000000000000000) noIndent separator isRootObject
      = Inr (WriteString (WriteString e separator)
          (if length (FormatFloat L 0x8000000000000000 (CHR ''E''))
                < length (FormatFloat L 0x8000000000000000 (CHR ''f''))
           then ToLower (FormatFloat L 0x8000000000000000 (CHR ''E''))
           else FormatFloat L 0x8000000000000000 (CHR ''f'')))"
  using negative_zero_tests
  by (subst str.simps) (simp add: Let_def WriteString_def del: word_eq_numeral_iff_iszero)

text \<open>With \<open>UnknownAsNull\<close> set in the encoder, \<open>str\<close> writes \<open>null\<close> for a value of
  a kind outside its switch.\<close>

lemma str_unknown_as_null:
  "UnknownAsNull e \<Longrightarrow>
    str L e (OtherV ty) noIndent separator isRootObject = Inr (WriteString e ''null'')"
  by (simp add: str.simps)

text \<open>The untyped \<open>nil\<close> given to \<open>MarshalWithOptions\<close> itself is not of kind
  \<open>Interface\<close>: \<open>reflect.ValueOf (nil)\<close> is the zero Value, which reaches the default
  branch, where \<open>value.Type ()\<close> panics.\<close>

lemma Marshal_untyped_nil:
  "MarshalWithOptions L InvalidV options
     = Inl (Panic ''reflect: call of reflect.Value.Type on zero Value'')"
  by (simp add: MarshalWithOptions_def str.simps)

text \<open>A signed integer is written in base 10.\<close>

lemma str_signed_integer:
  "str L e (IntV i) noIndent separator isRootObject
     = Inr (WriteString (WriteString e separator) (FormatInt (sint i)))"
  by (simp add: str.simps)

lemma FormatInt_examples:
  "FormatInt (sint (7 :: 64 word)) = ''7'' \<and> FormatInt (sint (- 17 :: 64 word)) = ''-17''"
  by (simp add: FormatInt_def digits.simps)

section \<open>Witnesses and counterexamples\<close>

theorem str_indent_restored_witness:
  "str exampleHost exampleEncoder
       (SliceV [MapV [(''k'', SliceV [BoolV True])], IntV 7]) True [] True
     = Inr (exampleEncoder\<lparr>Buffer := ''['' @ [LF] @ ''  {'' @ [LF] @ ''    k:'' @ [LF]
            @ ''    ['' @ [LF] @ ''      true'' @ [LF] @ ''    ]'' @ [LF] @ ''  }'' @ [LF]
            @ ''  7'' @ [LF] @ '']''\<rparr>)
   \<and> indent (exampleEncoder\<lparr>Buffer := ''['' @ [LF] @ ''  {'' @ [LF] @ ''    k:'' @ [LF]
            @ ''    ['' @ [LF] @ ''      true'' @ [LF] @ ''    ]'' @ [LF] @ ''  }'' @ [LF]
            @ ''  7'' @ [LF] @ '']''\<rparr>)
     = indent exampleEncoder"
proof -
  have r: "str exampleHost exampleEncoder
       (SliceV [MapV [(''k'', SliceV [BoolV True])], IntV 7]) True [] True
     = Inr (exampleEncoder\<lparr>Buffer := ''['' @ [LF] @ ''  {'' @ [LF] @ ''    k:'' @ [LF]
            @ ''    ['' @ [LF] @ ''      true'' @ [LF] @ ''    ]'' @ [LF] @ ''  }'' @ [LF]
            @ ''  7'' @ [LF] @ '']''\<rparr>)"
    by (simp add: str.simps eval_defs digits.simps replicate_numeral_unfold)
  show ?thesis
    using str_indent_restored [OF r] r by simp
qed

theorem quote_bare_witness:
  "''hello world'' \<noteq> [] \<and> \<not> needsQuotes ''hello world'' \<and> \<not> needsQuotes2 ''hello world''
   \<and> \<not> startsWithNumber exampleHost ''hello world'' \<and> \<not> startsWithKeyword ''hello world''
   \<and> \<not> QuoteAlways exampleEncoder \<and> \<not> QuoteAlways DefaultOptions
   \<and> quote exampleHost exampleEncoder ''hello world'' '' '' False
       = exampleEncoder\<lparr>Buffer := '' hello world''\<rparr>
   \<and> MarshalWithOptions exampleHost (StringV ''hello world'') DefaultOptions
       = Inr ''hello world''"
proof -
  have h0: "''hello world'' \<noteq> []"
    by simp
  have h1: "\<not> needsQuotes ''hello world''"
    by (simp add: class_defs match_defs)
  have h2: "\<not> needsQuotes2 ''hello world''"
    by (simp add: class_defs match_defs char_defs)
  have h3: "\<not> startsWithNumber exampleHost ''hello world''"
    by (simp add: host_defs class_defs match_defs)
  have h4: "\<not> startsWithKeyword ''hello world''"
    by (simp add: class_defs match_defs)
  have h5: "\<not> QuoteAlways exampleEncoder"
    by (simp add: exampleEncoder_def)
  have h6: "\<not> QuoteAlways DefaultOptions"
    by (simp add: DefaultOptions_def)
  show ?thesis
    using quote_bare [OF h0 h1 h2 h3 h4 h5 h6, of "'' ''" False] h1 h2 h3 h4 h5 h6
    by (simp add: exampleEncoder_def)
qed

text \<open>The empty string meets every condition of C1 but the first, and is written as
  two double quotes.\<close>

theorem quote_empty_counterexample:
  "\<not> needsQuotes [] \<and> \<not> needsQuotes2 [] \<and> \<not> startsWithNumber exampleHost []
   \<and> \<not> startsWithKeyword [] \<and> \<not> QuoteAlways DefaultOptions
   \<and> MarshalWithOptions exampleHost (StringV []) DefaultOptions = Inr [CHR 0x22, CHR 0x22]
   \<and> MarshalWithOptions exampleHost (StringV []) DefaultOptions \<noteq> Inr []"
  by (simp add: eval_defs str.simps)

theorem quote_never_multiline_witness:
  "Contains (tq @ [CHR ''x'', bs, CHR ''y'']) tq
   \<and> quote exampleHost exampleEncoder (tq @ [CHR ''x'', bs, CHR ''y'']) '' '' False
      = exampleEncoder\<lparr>Buffer := '' '' @ dq @ tq @ [CHR ''x'', bs, bs, CHR ''y''] @ dq\<rparr>"
proof -
  have c: "Contains (tq @ [CHR ''x'', bs, CHR ''y'']) tq"
    by (simp add: char_defs match_defs)
  have q: "needsQuotes2 (tq @ [CHR ''x'', bs, CHR ''y''])"
    by (simp add: char_defs match_defs)
  have n: "needsEscape (tq @ [CHR ''x'', bs, CHR ''y''])"
    by (simp add: char_defs match_defs class_defs)
  have r: "quoteReplace exampleHost (tq @ [CHR ''x'', bs, CHR ''y''])
      = tq @ [CHR ''x'', bs, bs, CHR ''y'']"
    by (simp add: char_defs class_defs quoteReplace_def meta_def)
  have t: "tq @ [CHR ''x'', bs, CHR ''y''] \<noteq> []"
    by (simp add: tq_def)
  show ?thesis
    using quote_never_multiline
      [of "tq @ [CHR ''x'', bs, CHR ''y'']" False exampleHost exampleEncoder "'' ''"] c q n r t
    by (simp add: WriteString_def exampleEncoder_def)
qed

text \<open>A root string that needs no quotes, and a nested string that contains the triple
  quote and needs no quotes, are written bare: no quoted form is emitted for them.\<close>

theorem quote_root_counterexample:
  "MarshalWithOptions exampleHost (StringV ''abc'') DefaultOptions = Inr ''abc''
   \<and> MarshalWithOptions exampleHost (StringV ''abc'') DefaultOptions \<noteq> Inr (dq @ ''abc'' @ dq)
   \<and> Contains (''a'' @ tq @ ''b'') tq
   \<and> quote exampleHost exampleEncoder (''a'' @ tq @ ''b'') '' '' False
       = exampleEncoder\<lparr>Buffer := '' a'' @ tq @ ''b''\<rparr>"
  by (simp add: eval_defs str.simps)

text \<open>A key with a double quote is outside the specification's set, and is quoted.\<close>

theorem quoteName_counterexample:
  "\<not> nameEscapeWorthy_spec [CHR ''a'', CHR 0x22, CHR ''b'']
   \<and> quoteName exampleHost [CHR ''a'', CHR 0x22, CHR ''b'']
       = [CHR 0x22, CHR ''a'', CHR 0x5C, CHR 0x22, CHR ''b'', CHR 0x22]"
  by (simp add: eval_defs)




section \<open>Where the code departs from its own design\<close>

text \<open>
  C3. The escaper on the string that is the one byte \<open>0x01\<close>, and on the soft hyphen
  \<open>U+00AD\<close> (two bytes): the replacement is \<open>\u\<close> and four padding bytes, whatever the
  rune, since \<open>Sprintf\<close> formats the \<open>nil\<close> entry of \<open>meta\<close> and not the rune. It is
  neither \<open>\u0001\<close> nor \<open>\u00ad\<close>.
\<close>

theorem quoteReplace_loses_codepoint:
  "quoteReplace L [CHR 0x01] = [bs, CHR ''u''] @ replicate 4 (padByte L)
   \<and> quoteReplace L [CHR 0x01] \<noteq> [bs, CHR ''u'', CHR ''0'', CHR ''0'', CHR ''0'', CHR ''1'']
   \<and> quoteReplace L [CHR 0xC2, CHR 0xAD] = [bs, CHR ''u''] @ replicate 4 (padByte L)
   \<and> quoteReplace L [CHR 0xC2, CHR 0xAD]
       \<noteq> [bs, CHR ''u'', CHR ''0'', CHR ''0'', CHR ''a'', CHR ''d'']"
  by (simp add: quoteReplace_def needsEscape_class_def needsQuotes_class_def meta_def
      Sprintf_u04x_nil_def bs_def replicate_numeral_unfold)

text \<open>
  C5. \<open>MarshalWithOptions\<close> on the float negative zero, with \<open>AllowMinusZero\<close> set in
  the options: the text is \<open>0\<close>, since the field is not among those assigned to the
  encoder. With the option not set the text is \<open>0\<close> as well.
\<close>

theorem Marshal_negative_zero:
  "MarshalWithOptions L (FloatV 0x8000000000000000) (options\<lparr>AllowMinusZero := True\<rparr>)
     = Inr ''0''
   \<and> MarshalWithOptions L (FloatV 0x8000000000000000) (options\<lparr>AllowMinusZero := False\<rparr>)
     = Inr ''0''"
  by (simp add: MarshalWithOptions_def str.simps IsInf_def IsNaN_def eqZero_def Let_def
      WriteString_def)

text \<open>
  C6. \<open>MarshalWithOptions\<close> on a value of a kind outside the switch of \<open>str\<close>, with
  \<open>UnknownAsNull\<close> set in the options: the error is returned, since the field is not
  among those assigned to the encoder.
\<close>

theorem Marshal_unknown_as_null:
  "MarshalWithOptions L (OtherV ''struct {}'') (options\<lparr>UnknownAsNull := True\<rparr>)
     = Inl (UnsupportedType (OtherV ''struct {}''))"
  by (simp add: MarshalWithOptions_def str.simps)

text \<open>
  C7. \<open>MarshalWithOptions\<close> on an unsigned integer, whatever its value and the options:
  \<open>value.Int ()\<close> panics on a value of an unsigned kind, and nothing is returned.
\<close>

theorem Marshal_unsigned_panics:
  "MarshalWithOptions L (UintV u) options
     = Inl (Panic ''reflect: call of reflect.Value.Int on uint Value'')"
  by (simp add: MarshalWithOptions_def str.simps)

end
